theory Spec2Isabelle
  imports Main
begin

section \<open>Entities (pkg/interfaces)\<close>

text \<open>
  A \<^verbatim>\<open>time.Time\<close> is an instant, counted in nanoseconds from Go's zero time, the
  start of the year 1 in UTC: \<open>IsZero\<close> holds of the instant 0 only, and \<open>t < u\<close> reads
  "\<open>u\<close> is later than \<open>t\<close>".
\<close>

type_synonym Time = int

definition IsZero :: "Time \<Rightarrow> bool" where
  "IsZero t = (t = 0)"

text \<open>
  \<^verbatim>\<open>Person\<close> and \<^verbatim>\<open>Relationship\<close> declare the same five store-managed fields
  (\<open>Key\<close>, \<open>ID\<close>, \<open>Rev\<close>, \<open>CreatedAt\<close>, \<open>UpdatedAt\<close>) and implement the three methods
  of the \<^verbatim>\<open>Entity\<close> interface with the same bodies. The fields are declared once, in a
  parent record, so that one definition of each method covers both receivers, and the
  generic \<^verbatim>\<open>BaseRepository[T, PT]\<close> is a function on any extension of that record.
\<close>

record Document =
  Key :: string
  ID :: string
  Rev :: string
  CreatedAt :: Time
  UpdatedAt :: Time

record Person = Document +
  FirstName :: string
  LastName :: string
  BirthDate :: Time
  DeathDate :: Time
  Gender :: string
  Email :: string
  Phone :: string

record Relationship = Document +
  From :: string
  To :: string
  RelationType :: string
  StartDate :: Time
  EndDate :: Time
  Notes :: string

text \<open>
  The fields of \<^verbatim>\<open>RelationshipCreateRequest\<close> carry the prefix \<open>req_\<close>, to keep them
  apart from the fields of \<^verbatim>\<open>Relationship\<close> of the same names.
\<close>

record RelationshipCreateRequest =
  req_From :: string
  req_To :: string
  req_RelationType :: string
  req_StartDate :: Time
  req_EndDate :: Time
  req_Notes :: string

definition RelationTypeParent :: string where "RelationTypeParent = ''parent''"
definition RelationTypeChild :: string where "RelationTypeChild = ''child''"
definition RelationTypeSpouse :: string where "RelationTypeSpouse = ''spouse''"
definition RelationTypeSibling :: string where "RelationTypeSibling = ''sibling''"

definition SetMetadata ::
  "string \<Rightarrow> string \<Rightarrow> string \<Rightarrow> 'a Document_scheme \<Rightarrow> 'a Document_scheme" where
  "SetMetadata key id' rev' p = p\<lparr>Key := key, ID := id', Rev := rev'\<rparr>"

definition SetTimestamps :: "Time \<Rightarrow> Time \<Rightarrow> 'a Document_scheme \<Rightarrow> 'a Document_scheme" where
  "SetTimestamps createdAt updatedAt p =
     (let p = (if IsZero (CreatedAt p) then p\<lparr>CreatedAt := createdAt\<rparr> else p)
      in p\<lparr>UpdatedAt := updatedAt\<rparr>)"

definition GetUpdatedAt :: "'a Document_scheme \<Rightarrow> Time" where
  "GetUpdatedAt p = UpdatedAt p"

section \<open>Go values: errors and slices\<close>

text \<open>
  An error is either one the store's driver returned, or one built by
  \<^verbatim>\<open>fmt.Errorf\<close>: its message and, for the \<^verbatim>\<open>%w\<close> verb, the error it wraps.
  The driver returns the store's errors, and \<open>EncodeError\<close> when it cannot encode the
  entity it was given. \<^verbatim>\<open>shared.IsNotFound\<close> recognises the store's not-found error.
\<close>

datatype store_err =
  NotFound | Conflict | DuplicateName | Unavailable | Canceled | EncodeError

datatype error = ArangoError store_err | Errorf string "error option"

definition IsNotFound :: "store_err \<Rightarrow> bool" where
  "IsNotFound err = (err = NotFound)"

text \<open>
  A slice is \<^verbatim>\<open>nil\<close> or holds its elements; \<^verbatim>\<open>var xs []T\<close> declares the \<^verbatim>\<open>nil\<close>
  slice, and \<^verbatim>\<open>append\<close> returns a slice that is not \<^verbatim>\<open>nil\<close>.
\<close>

datatype 'a slice = nil | Slice "'a list"

fun elems :: "'a slice \<Rightarrow> 'a list" where
  "elems nil = []"
| "elems (Slice xs) = xs"

definition len :: "'a slice \<Rightarrow> nat" where
  "len s = length (elems s)"

definition append_slice :: "'a slice \<Rightarrow> 'a \<Rightarrow> 'a slice" where
  "append_slice s x = Slice (elems s @ [x])"

section \<open>encoding/json\<close>

text \<open>
  The driver sends an entity as the JSON that \<^verbatim>\<open>encoding/json\<close> writes, and an entity
  that is read is decoded from JSON. A string is written rune by rune, as
  \<^verbatim>\<open>utf8.DecodeRuneInString\<close> reads it: an ASCII byte, or a well-formed sequence of two,
  three or four bytes, is kept; any other byte is written as U+FFFD and the reading goes on
  at the next byte. \<open>json_string s\<close> is the string that comes back when \<open>s\<close> is written
  and read again; it is \<open>s\<close> exactly when \<open>s\<close> is valid UTF-8.
\<close>

definition between :: "nat \<Rightarrow> char \<Rightarrow> nat \<Rightarrow> bool" where
  "between lo c hi = (lo \<le> of_char c \<and> of_char c \<le> hi)"

definition ascii :: "char \<Rightarrow> bool" where
  "ascii a = (of_char a < (0x80::nat))"

definition rune2 :: "char \<Rightarrow> char \<Rightarrow> bool" where
  "rune2 a b = (between 0xC2 a 0xDF \<and> between 0x80 b 0xBF)"

definition rune3 :: "char \<Rightarrow> char \<Rightarrow> char \<Rightarrow> bool" where
  "rune3 a b c =
     ((a = CHR 0xE0 \<and> between 0xA0 b 0xBF
       \<or> (between 0xE1 a 0xEC \<or> between 0xEE a 0xEF) \<and> between 0x80 b 0xBF
       \<or> a = CHR 0xED \<and> between 0x80 b 0x9F)
      \<and> between 0x80 c 0xBF)"

definition rune4 :: "char \<Rightarrow> char \<Rightarrow> char \<Rightarrow> char \<Rightarrow> bool" where
  "rune4 a b c d =
     ((a = CHR 0xF0 \<and> between 0x90 b 0xBF
       \<or> between 0xF1 a 0xF3 \<and> between 0x80 b 0xBF
       \<or> a = CHR 0xF4 \<and> between 0x80 b 0x8F)
      \<and> between 0x80 c 0xBF \<and> between 0x80 d 0xBF)"

definition RuneError :: string where
  "RuneError = [CHR 0xEF, CHR 0xBF, CHR 0xBD]"

fun json_string :: "string \<Rightarrow> string" where
  "json_string (a # b # c # d # s) =
     (if ascii a then a # json_string (b # c # d # s)
      else if rune2 a b then a # b # json_string (c # d # s)
      else if rune3 a b c then a # b # c # json_string (d # s)
      else if rune4 a b c d then a # b # c # d # json_string s
      else RuneError @ json_string (b # c # d # s))"
| "json_string [a, b, c] =
     (if ascii a then a # json_string [b, c]
      else if rune2 a b then a # b # json_string [c]
      else if rune3 a b c then [a, b, c]
      else RuneError @ json_string [b, c])"
| "json_string [a, b] =
     (if ascii a then a # json_string [b]
      else if rune2 a b then [a, b]
      else RuneError @ json_string [b])"
| "json_string [a] = (if ascii a then [a] else RuneError)"
| "json_string [] = []"

text \<open>
  A time is written in RFC 3339, with its nanoseconds; \<^verbatim>\<open>Time.MarshalJSON\<close> fails for
  a year outside 0 to 9999, and with it the encoding of the entity. The year is read in
  UTC here: the year 0 starts 366 days before the zero time, and the year 10000 starts
  3652059 days after it.
\<close>

definition marshals :: "Time \<Rightarrow> bool" where
  "marshals t =
     (- (366 * 86400 * 1000000000) \<le> t \<and> t < 3652059 * 86400 * 1000000000)"

text \<open>
  The entity as the store receives it and as it decodes again, or \<open>None\<close> when the
  encoding fails. A string that is left out when empty (\<^verbatim>\<open>omitempty\<close>) decodes as the
  empty string; a time is never left out.
\<close>

definition json_Person :: "Person \<Rightarrow> Person option" where
  "json_Person p =
     (if marshals (BirthDate p) \<and> marshals (DeathDate p)
         \<and> marshals (CreatedAt p) \<and> marshals (UpdatedAt p)
      then Some (p\<lparr>Key := json_string (Key p), ID := json_string (ID p),
                    Rev := json_string (Rev p),
                    FirstName := json_string (FirstName p),
                    LastName := json_string (LastName p),
                    Gender := json_string (Gender p),
                    Email := json_string (Email p),
                    Phone := json_string (Phone p)\<rparr>)
      else None)"

definition json_Relationship :: "Relationship \<Rightarrow> Relationship option" where
  "json_Relationship r =
     (if marshals (StartDate r) \<and> marshals (EndDate r)
         \<and> marshals (CreatedAt r) \<and> marshals (UpdatedAt r)
      then Some (r\<lparr>Key := json_string (Key r), ID := json_string (ID r),
                    Rev := json_string (Rev r),
                    From := json_string (From r),
                    To := json_string (To r),
                    RelationType := json_string (RelationType r),
                    Notes := json_string (Notes r)\<rparr>)
      else None)"

section \<open>The document store\<close>

text \<open>
  The store is the external collaborator behind \<^verbatim>\<open>arangodb.Collection\<close> and
  \<^verbatim>\<open>arangodb.Database\<close>. A repository sees one collection of it: the stored documents
  in iteration order, each carrying the \<open>Key\<close>, \<open>ID\<close> and \<open>Rev\<close> the store gave it; a
  counter from which the store draws fresh keys and revisions; \<open>json\<close>, the encoding of
  the collection's entity type (\<open>json_Person\<close>, \<open>json_Relationship\<close>), with which the
  driver encodes the entity of a write; \<open>merge old body\<close>, the document that results from
  writing the attributes an update's body carries over the stored document \<open>old\<close>;
  \<open>outage\<close>, the error with which the store answers every request while it is set
  (connectivity, timeout, cancellation); and the requests the repository has made through
  its handles so far, a write with the entity it passed. A write whose entity cannot be
  encoded is answered by the driver, with \<open>EncodeError\<close>, and does not reach the store.
\<close>

datatype 'e request =
    CreateDocumentReq 'e
  | ReadDocumentReq string
  | UpdateDocumentReq string 'e
  | DeleteDocumentReq string
  | QueryReq

record DocumentMeta =
  meta_Key :: string
  meta_ID :: string
  meta_Rev :: string

record 'e Collection =
  collectionName :: string
  documents :: "'e list"
  counter :: nat
  json :: "'e \<Rightarrow> 'e option"
  merge :: "'e \<Rightarrow> 'e \<Rightarrow> 'e"
  outage :: "store_err option"
  requests :: "'e request list"

definition digit :: "nat \<Rightarrow> char" where
  "digit d = ''0123456789'' ! d"

function decimal :: "nat \<Rightarrow> string" where
  "decimal n =
     (if n < 10 then [digit n]
      else decimal (n div 10) @ [digit (n mod 10)])"
  by pat_completeness auto
termination
  by (relation "measure id") auto

declare decimal.simps [simp del]

definition meta_of :: "'a Document_scheme \<Rightarrow> DocumentMeta" where
  "meta_of d = \<lparr>meta_Key = Key d, meta_ID = ID d, meta_Rev = Rev d\<rparr>"

definition received :: "'e request \<Rightarrow> 'e Collection \<Rightarrow> 'e Collection" where
  "received q c = c\<lparr>requests := requests c @ [q]\<rparr>"

text \<open>
  Insert: the store keeps the document it receives under the key the document carries or,
  when it carries none, under a fresh one; a key already in use is a conflict.
\<close>

definition CreateDocument ::
  "'a Document_scheme Collection \<Rightarrow> 'a Document_scheme
     \<Rightarrow> (store_err + DocumentMeta) \<times> 'a Document_scheme Collection" where
  "CreateDocument c0 body =
     (let c = received (CreateDocumentReq body) c0 in
      case json c body of
        None \<Rightarrow> (Inl EncodeError, c)
      | Some doc \<Rightarrow>
          (case outage c of
             Some err \<Rightarrow> (Inl err, c)
           | None \<Rightarrow>
               let key = (if Key doc = [] then decimal (counter c) else Key doc) in
               if key \<in> set (map Key (documents c)) then (Inl Conflict, c)
               else
                 let stored = doc\<lparr>Key := key,
                                   ID := collectionName c @ ''/'' @ key,
                                   Rev := ''_'' @ decimal (counter c)\<rparr>
                 in (Inr (meta_of stored),
                     c\<lparr>documents := documents c @ [stored], counter := Suc (counter c)\<rparr>)))"

definition ReadDocument ::
  "'a Document_scheme Collection \<Rightarrow> string
     \<Rightarrow> (store_err + DocumentMeta \<times> 'a Document_scheme) \<times> 'a Document_scheme Collection" where
  "ReadDocument c0 key =
     (let c = received (ReadDocumentReq key) c0 in
      case outage c of
        Some err \<Rightarrow> (Inl err, c)
      | None \<Rightarrow>
          (case find (\<lambda>d. Key d = key) (documents c) of
             None \<Rightarrow> (Inl NotFound, c)
           | Some d \<Rightarrow> (Inr (meta_of d, d), c)))"

text \<open>
  Update: the store merges the document it receives into the document stored under the
  key, keeps key and id and gives a new revision.
\<close>

definition UpdateDocument ::
  "'a Document_scheme Collection \<Rightarrow> string \<Rightarrow> 'a Document_scheme
     \<Rightarrow> (store_err + DocumentMeta) \<times> 'a Document_scheme Collection" where
  "UpdateDocument c0 key body =
     (let c = received (UpdateDocumentReq key body) c0 in
      case json c body of
        None \<Rightarrow> (Inl EncodeError, c)
      | Some doc \<Rightarrow>
          (case outage c of
             Some err \<Rightarrow> (Inl err, c)
           | None \<Rightarrow>
               (case find (\<lambda>d. Key d = key) (documents c) of
                  None \<Rightarrow> (Inl NotFound, c)
                | Some old \<Rightarrow>
                    let stored = (merge c old doc)\<lparr>Key := Key old, ID := ID old,
                                                  Rev := ''_'' @ decimal (counter c)\<rparr>
                    in (Inr (meta_of stored),
                        c\<lparr>documents :=
                            map (\<lambda>d. if Key d = key then stored else d) (documents c),
                          counter := Suc (counter c)\<rparr>))))"

definition DeleteDocument ::
  "'a Document_scheme Collection \<Rightarrow> string
     \<Rightarrow> (store_err + DocumentMeta) \<times> 'a Document_scheme Collection" where
  "DeleteDocument c0 key =
     (let c = received (DeleteDocumentReq key) c0 in
      case outage c of
        Some err \<Rightarrow> (Inl err, c)
      | None \<Rightarrow>
          (case find (\<lambda>d. Key d = key) (documents c) of
             None \<Rightarrow> (Inl NotFound, c)
           | Some d \<Rightarrow>
               (Inr (meta_of d), c\<lparr>documents := filter (\<lambda>d. Key d \<noteq> key) (documents c)\<rparr>)))"

text \<open>
  A query \<^verbatim>\<open>FOR doc IN <collection> FILTER <condition> RETURN doc\<close> is given by its
  condition, with the bind variables in place. The cursor is the list of what each
  \<^verbatim>\<open>cursor.ReadDocument\<close> will return, and \<^verbatim>\<open>cursor.HasMore\<close> holds while it is not
  empty.
\<close>

type_synonym 'e Cursor = "(store_err + 'e) list"

definition Query ::
  "'e Collection \<Rightarrow> ('e \<Rightarrow> bool) \<Rightarrow> (store_err + 'e Cursor) \<times> 'e Collection" where
  "Query c0 condition =
     (let c = received QueryReq c0 in
      case outage c of
        Some err \<Rightarrow> (Inl err, c)
      | None \<Rightarrow> (Inr (map Inr (filter condition (documents c))), c))"

section \<open>BaseRepository (internal/repositories/arangorepository)\<close>

text \<open>
  A repository holds handles to the store, so its state is the state of its collection.
  An operation takes the clock reading \<open>now\<close> that its \<^verbatim>\<open>time.Now()\<close> returns, and
  returns the error (if any), the entity behind the pointer it was given as the call
  leaves it, and the store.
\<close>

definition Create ::
  "Time \<Rightarrow> 'a Document_scheme Collection \<Rightarrow> 'a Document_scheme
     \<Rightarrow> error option \<times> 'a Document_scheme \<times> 'a Document_scheme Collection" where
  "Create now r entity0 =
     (let entity = SetTimestamps now now entity0 in
      case CreateDocument r entity of
        (Inl err, r') \<Rightarrow>
          (Some (Errorf ''failed to create entity'' (Some (ArangoError err))), entity, r')
      | (Inr meta, r') \<Rightarrow>
          (None, SetMetadata (meta_Key meta) (meta_ID meta) (meta_Rev meta) entity, r'))"

definition GetByID ::
  "'a Document_scheme Collection \<Rightarrow> string
     \<Rightarrow> (error + 'a Document_scheme) \<times> 'a Document_scheme Collection" where
  "GetByID r id' =
     (case ReadDocument r id' of
        (Inl err, r') \<Rightarrow>
          if IsNotFound err
          then (Inl (Errorf ''entity not found'' (Some (ArangoError err))), r')
          else (Inl (Errorf ''failed to get entity'' (Some (ArangoError err))), r')
      | (Inr (meta, entity), r') \<Rightarrow>
          (Inr (SetMetadata (meta_Key meta) (meta_ID meta) (meta_Rev meta) entity), r'))"

definition Update ::
  "Time \<Rightarrow> 'a Document_scheme Collection \<Rightarrow> string \<Rightarrow> 'a Document_scheme
     \<Rightarrow> error option \<times> 'a Document_scheme \<times> 'a Document_scheme Collection" where
  "Update now r id' entity0 =
     (let entity = SetTimestamps (GetUpdatedAt entity0) now entity0 in
      case UpdateDocument r id' entity of
        (Inl err, r') \<Rightarrow>
          if IsNotFound err
          then (Some (Errorf ''entity not found'' (Some (ArangoError err))), entity, r')
          else (Some (Errorf ''failed to update entity'' (Some (ArangoError err))), entity, r')
      | (Inr meta, r') \<Rightarrow>
          (None, SetMetadata (meta_Key meta) (meta_ID meta) (meta_Rev meta) entity, r'))"

definition Delete ::
  "'a Document_scheme Collection \<Rightarrow> string
     \<Rightarrow> error option \<times> 'a Document_scheme Collection" where
  "Delete r id' =
     (case DeleteDocument r id' of
        (Inl err, r') \<Rightarrow>
          if IsNotFound err
          then (Some (Errorf ''entity not found'' (Some (ArangoError err))), r')
          else (Some (Errorf ''failed to delete entity'' (Some (ArangoError err))), r')
      | (Inr meta, r') \<Rightarrow> (None, r'))"

text \<open>
  The loop \<^verbatim>\<open>for cursor.HasMore() { ...ReadDocument...; xs = append(xs, x) }\<close> that
  \<^verbatim>\<open>List\<close> and the three finders share; \<open>msg\<close> is the message of the error a failed
  read is wrapped in.
\<close>

fun read_all :: "string \<Rightarrow> 'e Cursor \<Rightarrow> 'e slice \<Rightarrow> error + 'e slice" where
  "read_all msg [] entities = Inr entities"
| "read_all msg (Inl err # cursor) entities = Inl (Errorf msg (Some (ArangoError err)))"
| "read_all msg (Inr entity # cursor) entities =
     read_all msg cursor (append_slice entities entity)"

definition List ::
  "'e Collection \<Rightarrow> (error + 'e slice) \<times> 'e Collection" where
  "List r =
     (case Query r (\<lambda>doc. True) of
        (Inl err, r') \<Rightarrow> (Inl (Errorf ''failed to query entities'' (Some (ArangoError err))), r')
      | (Inr cursor, r') \<Rightarrow> (read_all ''failed to read entity'' cursor nil, r'))"

section \<open>PersonRepository and RelationshipRepository\<close>


definition FindByPerson ::
  "Relationship Collection \<Rightarrow> string
     \<Rightarrow> (error + Relationship slice) \<times> Relationship Collection" where
  "FindByPerson r personID =
     (case Query r (\<lambda>rel. From rel = personID \<or> To rel = personID) of
        (Inl err, r') \<Rightarrow>
          (Inl (Errorf ''failed to query relationships by person'' (Some (ArangoError err))), r')
      | (Inr cursor, r') \<Rightarrow> (read_all ''failed to read relationship'' cursor nil, r'))"

definition FindByType ::
  "Relationship Collection \<Rightarrow> string
     \<Rightarrow> (error + Relationship slice) \<times> Relationship Collection" where
  "FindByType r relationType =
     (case Query r (\<lambda>rel. RelationType rel = relationType) of
        (Inl err, r') \<Rightarrow>
          (Inl (Errorf ''failed to query relationships by type'' (Some (ArangoError err))), r')
      | (Inr cursor, r') \<Rightarrow> (read_all ''failed to read relationship'' cursor nil, r'))"

section \<open>strings.TrimSpace\<close>

text \<open>
  A Go string is a sequence of bytes. \<^verbatim>\<open>strings.TrimSpace\<close> removes the leading and the
  trailing white-space runes, as \<^verbatim>\<open>unicode.IsSpace\<close> defines them: the six ASCII
  characters, and in UTF-8 the two-byte runes U+0085 and U+00A0 and the three-byte runes
  U+1680, U+2000 to U+200A, U+2028, U+2029, U+202F, U+205F and U+3000.
\<close>

definition asciiSpace :: "char \<Rightarrow> bool" where
  "asciiSpace c =
     (c = CHR 0x09 \<or> c = CHR 0x0A \<or> c = CHR 0x0B \<or> c = CHR 0x0C \<or> c = CHR 0x0D \<or> c = CHR 0x20)"

definition isSpace2 :: "char \<Rightarrow> char \<Rightarrow> bool" where
  "isSpace2 a b = (a = CHR 0xC2 \<and> (b = CHR 0x85 \<or> b = CHR 0xA0))"

definition isSpace3 :: "char \<Rightarrow> char \<Rightarrow> char \<Rightarrow> bool" where
  "isSpace3 a b c =
     ((a = CHR 0xE1 \<and> b = CHR 0x9A \<and> c = CHR 0x80)
    \<or> (a = CHR 0xE2 \<and> b = CHR 0x80
        \<and> ((0x80::nat) \<le> of_char c \<and> of_char c \<le> (0x8A::nat)
           \<or> c = CHR 0xA8 \<or> c = CHR 0xA9 \<or> c = CHR 0xAF))
    \<or> (a = CHR 0xE2 \<and> b = CHR 0x81 \<and> c = CHR 0x9F)
    \<or> (a = CHR 0xE3 \<and> b = CHR 0x80 \<and> c = CHR 0x80))"

fun TrimLeft :: "string \<Rightarrow> string" where
  "TrimLeft (a # b # c # s) =
     (if asciiSpace a then TrimLeft (b # c # s)
      else if isSpace2 a b then TrimLeft (c # s)
      else if isSpace3 a b c then TrimLeft s
      else a # b # c # s)"
| "TrimLeft [a, b] =
     (if asciiSpace a then TrimLeft [b] else if isSpace2 a b then [] else [a, b])"
| "TrimLeft [a] = (if asciiSpace a then [] else [a])"
| "TrimLeft [] = []"

text \<open>The same from the end, on the reversed string: \<open>a\<close> is the last byte.\<close>

fun TrimRight_rev :: "string \<Rightarrow> string" where
  "TrimRight_rev (a # b # c # s) =
     (if asciiSpace a then TrimRight_rev (b # c # s)
      else if isSpace2 b a then TrimRight_rev (c # s)
      else if isSpace3 c b a then TrimRight_rev s
      else a # b # c # s)"
| "TrimRight_rev [a, b] =
     (if asciiSpace a then TrimRight_rev [b] else if isSpace2 b a then [] else [a, b])"
| "TrimRight_rev [a] = (if asciiSpace a then [] else [a])"
| "TrimRight_rev [] = []"

definition TrimSpace :: "string \<Rightarrow> string" where
  "TrimSpace s = rev (TrimRight_rev (rev (TrimLeft s)))"

section \<open>RelationshipService (internal/services/v1relationshipservice)\<close>

text \<open>
  \<^verbatim>\<open>validTypes\<close> is a \<^verbatim>\<open>map[string]bool\<close>; indexing it at a key it does not hold gives
  \<^verbatim>\<open>false\<close>.
\<close>

definition validTypes :: "string \<rightharpoonup> bool" where
  "validTypes =
     [RelationTypeParent \<mapsto> True, RelationTypeChild \<mapsto> True,
      RelationTypeSpouse \<mapsto> True, RelationTypeSibling \<mapsto> True]"

definition index_bool :: "(string \<rightharpoonup> bool) \<Rightarrow> string \<Rightarrow> bool" where
  "index_bool m k = (case m k of None \<Rightarrow> False | Some b \<Rightarrow> b)"

definition validateCreateRequest :: "RelationshipCreateRequest \<Rightarrow> error option" where
  "validateCreateRequest req =
     (if TrimSpace (req_From req) = [] then Some (Errorf ''from is required'' None)
      else if TrimSpace (req_To req) = [] then Some (Errorf ''to is required'' None)
      else if TrimSpace (req_RelationType req) = []
        then Some (Errorf ''relationType is required'' None)
      else if req_From req = req_To req
        then Some (Errorf ''from and to must be different persons'' None)
      else if \<not> index_bool validTypes (req_RelationType req)
        then Some (Errorf (''invalid relationship type: '' @ req_RelationType req
                           @ ''. Valid types are: parent, child, spouse, sibling'') None)
      else None)"

definition CreateRelationship ::
  "Time \<Rightarrow> Relationship Collection \<Rightarrow> RelationshipCreateRequest
     \<Rightarrow> (error + Relationship) \<times> Relationship Collection" where
  "CreateRelationship now repo req =
     (case validateCreateRequest req of
        Some err \<Rightarrow> (Inl err, repo)
      | None \<Rightarrow>
          let relationship =
                \<lparr>Key = [], ID = [], Rev = [], CreatedAt = 0, UpdatedAt = 0,
                 From = TrimSpace (req_From req),
                 To = TrimSpace (req_To req),
                 RelationType = TrimSpace (req_RelationType req),
                 StartDate = req_StartDate req,
                 EndDate = req_EndDate req,
                 Notes = TrimSpace (req_Notes req)\<rparr>
          in (case Create now repo relationship of
                (Some err, relationship', repo') \<Rightarrow>
                  (Inl (Errorf ''failed to create relationship'' (Some err)), repo')
              | (None, relationship', repo') \<Rightarrow> (Inr relationship', repo')))"

definition GetRelationshipsByType ::
  "Relationship Collection \<Rightarrow> string
     \<Rightarrow> (error + Relationship slice) \<times> Relationship Collection" where
  "GetRelationshipsByType repo relationType =
     (if relationType = [] then (Inl (Errorf ''relationship type is required'' None), repo)
      else (case FindByType repo relationType of
              (Inl err, repo') \<Rightarrow> (Inl err, repo')
            | (Inr relationships, repo') \<Rightarrow> (Inr relationships, repo')))"

section \<open>Connection manager (pkg/clients/arangodbclient)\<close>

text \<open>
  The database, as \<^verbatim>\<open>ensureCollection\<close> sees it: the collections it holds, each
  with its type, the error it answers with while it is out of reach, and the requests it
  has received. Creating a collection under a name in use fails with the store's
  duplicate-name error.
\<close>

datatype CollectionType = CollectionTypeDocument | CollectionTypeEdge

record CreateCollectionPropertiesV2 =
  Type :: "CollectionType option"

datatype db_request =
    CollectionExistsReq string
  | CreateCollectionReq string CreateCollectionPropertiesV2

record Database =
  collections :: "(string \<times> CollectionType) list"
  db_outage :: "store_err option"
  db_requests :: "db_request list"

definition db_received :: "db_request \<Rightarrow> Database \<Rightarrow> Database" where
  "db_received q db = db\<lparr>db_requests := db_requests db @ [q]\<rparr>"

definition CollectionExists :: "Database \<Rightarrow> string \<Rightarrow> (store_err + bool) \<times> Database" where
  "CollectionExists db0 name =
     (let db = db_received (CollectionExistsReq name) db0 in
      case db_outage db of
        Some err \<Rightarrow> (Inl err, db)
      | None \<Rightarrow> (Inr (name \<in> set (map fst (collections db))), db))"

definition CreateCollectionV2 ::
  "Database \<Rightarrow> string \<Rightarrow> CreateCollectionPropertiesV2 \<Rightarrow> (store_err + unit) \<times> Database" where
  "CreateCollectionV2 db0 name props =
     (let db = db_received (CreateCollectionReq name props) db0 in
      case db_outage db of
        Some err \<Rightarrow> (Inl err, db)
      | None \<Rightarrow>
          if name \<in> set (map fst (collections db)) then (Inl DuplicateName, db)
          else
            let t = (case Type props of None \<Rightarrow> CollectionTypeDocument | Some t \<Rightarrow> t)
            in (Inr (), db\<lparr>collections := collections db @ [(name, t)]\<rparr>))"

text \<open>
  The database is shared with the other instances of the process: \<open>others\<close> is what they
  do to it between the two requests of this call.
\<close>

definition ensureCollection ::
  "(Database \<Rightarrow> Database) \<Rightarrow> Database \<Rightarrow> string \<Rightarrow> bool \<Rightarrow> error option \<times> Database" where
  "ensureCollection others db name isEdge =
     (case CollectionExists db name of
        (Inl err, db1) \<Rightarrow>
          (Some (Errorf ''failed to check collection existence'' (Some (ArangoError err))), db1)
      | (Inr exists, db1) \<Rightarrow>
          if exists then (None, db1)
          else
            let props = \<lparr>Type = None\<rparr>;
                props = (if isEdge then props\<lparr>Type := Some CollectionTypeEdge\<rparr> else props)
            in (case CreateCollectionV2 (others db1) name props of
                  (Inl err, db2) \<Rightarrow>
                    (Some (Errorf ''failed to create collection'' (Some (ArangoError err))), db2)
                | (Inr u, db2) \<Rightarrow> (None, db2)))"

section \<open>Sample data\<close>

text \<open>
  What an update leaves of a stored document: the body of a person omits \<open>gender\<close>,
  \<open>email\<close> and \<open>phone\<close> when they are empty (\<^verbatim>\<open>omitempty\<close>), the body of a
  relationship omits \<open>notes\<close>, and these keep their stored value.
\<close>

definition merge_Person :: "Person \<Rightarrow> Person \<Rightarrow> Person" where
  "merge_Person old body =
     body\<lparr>Gender := (if Gender body = [] then Gender old else Gender body),
          Email := (if Email body = [] then Email old else Email body),
          Phone := (if Phone body = [] then Phone old else Phone body)\<rparr>"

definition merge_Relationship :: "Relationship \<Rightarrow> Relationship \<Rightarrow> Relationship" where
  "merge_Relationship old body =
     body\<lparr>Notes := (if Notes body = [] then Notes old else Notes body)\<rparr>"

definition ada :: Person where
  "ada = \<lparr>Key = ''0'', ID = ''persons/0'', Rev = ''_0'', CreatedAt = 3, UpdatedAt = 7,
     FirstName = ''Ada'', LastName = ''Lovelace'', BirthDate = 0, DeathDate = 0,
     Gender = [], Email = [], Phone = []\<rparr>"

definition ada_king :: Person where
  "ada_king = \<lparr>Key = ''1'', ID = ''persons/1'', Rev = ''_1'', CreatedAt = 4, UpdatedAt = 4,
     FirstName = ''Ada'', LastName = ''King'', BirthDate = 0, DeathDate = 0,
     Gender = [], Email = [], Phone = []\<rparr>"

definition william_king :: Person where
  "william_king = \<lparr>Key = ''2'', ID = ''persons/2'', Rev = ''_2'', CreatedAt = 5, UpdatedAt = 5,
     FirstName = ''William'', LastName = ''King'', BirthDate = 0, DeathDate = 0,
     Gender = [], Email = [], Phone = []\<rparr>"

definition charles :: Person where
  "charles = \<lparr>Key = [], ID = [], Rev = [], CreatedAt = 0, UpdatedAt = 0,
     FirstName = ''Charles'', LastName = ''Babbage'', BirthDate = 0, DeathDate = 0,
     Gender = [], Email = [], Phone = []\<rparr>"

text \<open>
  Grace has been stamped before: her \<open>createdAt\<close> is not zero. The first name of the
  last person is the letter A and the byte FF, which is not valid UTF-8.
\<close>

definition grace :: Person where
  "grace = \<lparr>Key = [], ID = [], Rev = [], CreatedAt = 5, UpdatedAt = 5,
     FirstName = ''Grace'', LastName = ''Hopper'', BirthDate = 0, DeathDate = 0,
     Gender = [], Email = [], Phone = []\<rparr>"

definition misencoded :: Person where
  "misencoded = \<lparr>Key = [], ID = [], Rev = [], CreatedAt = 0, UpdatedAt = 0,
     FirstName = [CHR 0x41, CHR 0xFF], LastName = ''Lovelace'', BirthDate = 0, DeathDate = 0,
     Gender = [], Email = [], Phone = []\<rparr>"

definition persons_with_ada :: "Person Collection" where
  "persons_with_ada =
     \<lparr>collectionName = ''persons'', documents = [ada], counter = 1,
      json = json_Person, merge = merge_Person, outage = None, requests = []\<rparr>"

definition persons_down :: "Person Collection" where
  "persons_down = persons_with_ada\<lparr>outage := Some Unavailable\<rparr>"

definition three_persons :: "Person Collection" where
  "three_persons =
     \<lparr>collectionName = ''persons'', documents = [ada, ada_king, william_king], counter = 3,
      json = json_Person, merge = merge_Person, outage = None, requests = []\<rparr>"

definition no_persons :: "Person Collection" where
  "no_persons =
     \<lparr>collectionName = ''persons'', documents = [], counter = 0,
      json = json_Person, merge = merge_Person, outage = None, requests = []\<rparr>"

definition sibling_01 :: Relationship where
  "sibling_01 = \<lparr>Key = ''0'', ID = ''relationships/0'', Rev = ''_0'', CreatedAt = 6,
     UpdatedAt = 6, From = ''persons/0'', To = ''persons/1'', RelationType = ''sibling'',
     StartDate = 0, EndDate = 0, Notes = []\<rparr>"

definition parent_20 :: Relationship where
  "parent_20 = \<lparr>Key = ''1'', ID = ''relationships/1'', Rev = ''_1'', CreatedAt = 7,
     UpdatedAt = 7, From = ''persons/2'', To = ''persons/0'', RelationType = ''parent'',
     StartDate = 0, EndDate = 0, Notes = []\<rparr>"

definition untyped_21 :: Relationship where
  "untyped_21 = \<lparr>Key = ''2'', ID = ''relationships/2'', Rev = ''_2'', CreatedAt = 8,
     UpdatedAt = 8, From = ''persons/2'', To = ''persons/1'', RelationType = [],
     StartDate = 0, EndDate = 0, Notes = []\<rparr>"

definition spouse_new :: Relationship where
  "spouse_new = \<lparr>Key = [], ID = [], Rev = [], CreatedAt = 0, UpdatedAt = 0,
     From = ''persons/1'', To = ''persons/2'', RelationType = ''spouse'',
     StartDate = 0, EndDate = 0, Notes = []\<rparr>"

definition three_relationships :: "Relationship Collection" where
  "three_relationships =
     \<lparr>collectionName = ''relationships'', documents = [sibling_01, parent_20, untyped_21],
      counter = 3, json = json_Relationship, merge = merge_Relationship,
      outage = None, requests = []\<rparr>"

definition self_request :: RelationshipCreateRequest where
  "self_request = \<lparr>req_From = ''persons/0'', req_To = ''persons/0'',
     req_RelationType = ''parent'', req_StartDate = 0, req_EndDate = 0, req_Notes = []\<rparr>"

definition mentor_request :: RelationshipCreateRequest where
  "mentor_request = \<lparr>req_From = ''persons/0'', req_To = ''persons/1'',
     req_RelationType = ''mentor'', req_StartDate = 0, req_EndDate = 0, req_Notes = []\<rparr>"

definition padded_request :: RelationshipCreateRequest where
  "padded_request = \<lparr>req_From = ''persons/0'', req_To = ''persons/0 '',
     req_RelationType = ''parent'', req_StartDate = 0, req_EndDate = 0, req_Notes = []\<rparr>"

definition blank_request :: RelationshipCreateRequest where
  "blank_request = \<lparr>req_From = '' '', req_To = ''  '',
     req_RelationType = ''parent'', req_StartDate = 0, req_EndDate = 0, req_Notes = []\<rparr>"

definition empty_database :: Database where
  "empty_database = \<lparr>collections = [], db_outage = None, db_requests = []\<rparr>"

definition persons_database :: Database where
  "persons_database =
     \<lparr>collections = [(''persons'', CollectionTypeDocument)], db_outage = None,
      db_requests = []\<rparr>"

definition alone :: "Database \<Rightarrow> Database" where
  "alone db = db"

text \<open>Another instance of the process that runs its own \<^verbatim>\<open>ensureCollection\<close>.\<close>

definition another_instance :: "Database \<Rightarrow> Database" where
  "another_instance db = snd (ensureCollection alone db ''persons'' False)"

section \<open>Properties\<close>

subsection \<open>Helper facts\<close>

lemmas sample_defs = merge_Person_def merge_Relationship_def ada_def ada_king_def
  william_king_def charles_def grace_def misencoded_def spouse_new_def
  persons_with_ada_def persons_down_def three_persons_def no_persons_def
  sibling_01_def parent_20_def untyped_21_def three_relationships_def
  self_request_def mentor_request_def padded_request_def blank_request_def
  empty_database_def persons_database_def alone_def another_instance_def

lemmas store_defs = CreateDocument_def ReadDocument_def UpdateDocument_def DeleteDocument_def
  Query_def received_def meta_of_def Let_def

lemmas entity_defs = SetMetadata_def SetTimestamps_def GetUpdatedAt_def IsZero_def

lemmas json_defs = json_Person_def json_Relationship_def marshals_def between_def ascii_def
  rune2_def rune3_def rune4_def RuneError_def

lemma Create_entity:
  "fst (snd (Create now r e)) =
     (case fst (CreateDocument r (SetTimestamps now now e)) of
        Inl err \<Rightarrow> SetTimestamps now now e
      | Inr meta \<Rightarrow>
          SetMetadata (meta_Key meta) (meta_ID meta) (meta_Rev meta) (SetTimestamps now now e))"
  by (simp add: Create_def Let_def split: prod.splits sum.splits)

lemma Update_entity:
  "fst (snd (Update now r i e)) =
     (case fst (UpdateDocument r i (SetTimestamps (GetUpdatedAt e) now e)) of
        Inl err \<Rightarrow> SetTimestamps (GetUpdatedAt e) now e
      | Inr meta \<Rightarrow>
          SetMetadata (meta_Key meta) (meta_ID meta) (meta_Rev meta)
            (SetTimestamps (GetUpdatedAt e) now e))"
  by (simp add: Update_def Let_def split: prod.splits sum.splits)

lemma Create_error:
  "fst (Create now r e) =
     (case fst (CreateDocument r (SetTimestamps now now e)) of
        Inl err \<Rightarrow> Some (Errorf ''failed to create entity'' (Some (ArangoError err)))
      | Inr meta \<Rightarrow> None)"
  by (simp add: Create_def Let_def split: prod.splits sum.splits)

lemma Update_error:
  "fst (Update now r i e) =
     (case fst (UpdateDocument r i (SetTimestamps (GetUpdatedAt e) now e)) of
        Inl err \<Rightarrow>
          Some (Errorf (if IsNotFound err then ''entity not found''
                        else ''failed to update entity'') (Some (ArangoError err)))
      | Inr meta \<Rightarrow> None)"
  by (simp add: Update_def Let_def split: prod.splits sum.splits)

lemma CreatedAt_SetMetadata: "CreatedAt (SetMetadata k i v e) = CreatedAt e"
  and UpdatedAt_SetMetadata: "UpdatedAt (SetMetadata k i v e) = UpdatedAt e"
  by (simp_all add: SetMetadata_def)

lemma CreatedAt_SetTimestamps:
  "CreatedAt (SetTimestamps c u e) = (if IsZero (CreatedAt e) then c else CreatedAt e)"
  and UpdatedAt_SetTimestamps: "UpdatedAt (SetTimestamps c u e) = u"
  by (simp_all add: SetTimestamps_def Let_def)

lemmas stamps = CreatedAt_SetMetadata UpdatedAt_SetMetadata CreatedAt_SetTimestamps
  UpdatedAt_SetTimestamps

lemma untouched_SetTimestamps:
  "(SetTimestamps c u e)\<lparr>CreatedAt := CreatedAt e, UpdatedAt := UpdatedAt e\<rparr> = e"
  by (simp add: SetTimestamps_def Let_def)

lemma untouched_SetMetadata:
  "(SetMetadata k i v e)\<lparr>Key := Key e, ID := ID e, Rev := Rev e\<rparr> = e"
  by (simp add: SetMetadata_def)

lemma decimal_not_empty: "decimal n \<noteq> []"
  by (subst decimal.simps) simp

lemma find_fresh_last:
  "k \<notin> set (map Key ds) \<Longrightarrow> Key d = k \<Longrightarrow> find (\<lambda>x. Key x = k) (ds @ [d]) = Some d"
  by (induction ds) auto

lemma CreateDocument_ok:
  assumes "CreateDocument r body = (Inr meta, r')"
  shows "\<exists>doc. json r body = Some doc
           \<and> find (\<lambda>d. Key d = meta_Key meta) (documents r') =
               Some (doc\<lparr>Key := meta_Key meta, ID := meta_ID meta, Rev := meta_Rev meta\<rparr>)
           \<and> outage r' = None
           \<and> meta_Key meta \<noteq> [] \<and> meta_ID meta \<noteq> [] \<and> meta_Rev meta \<noteq> []"
  using assms
  by (auto simp add: CreateDocument_def received_def meta_of_def Let_def decimal_not_empty
      find_fresh_last split: option.splits if_splits)

subsection \<open>Timestamps\<close>

text \<open>
  C1, as stated, asks every \<open>Update\<close> of an entity with a non-zero \<open>createdAt\<close> to leave
  an \<open>updatedAt\<close> strictly later than before. \<open>Update\<close> writes the clock reading it
  takes: an update of Ada's document at the reading 7, the reading of her previous write,
  leaves \<open>updatedAt\<close> where it was.
\<close>

theorem Update_updatedAt_not_later:
  "\<not> IsZero (CreatedAt ada) \<and>
   \<not> UpdatedAt ada < UpdatedAt (fst (snd (Update 7 persons_with_ada ''0'' ada)))"
  by (simp add: Update_entity stamps IsZero_def ada_def split: sum.splits)

text \<open>
  C1, amended: \<open>Create\<close> sets \<open>createdAt\<close> to its clock reading when it is zero and
  leaves a non-zero \<open>createdAt\<close> as it is. \<open>Update\<close> of an entity whose \<open>createdAt\<close> is
  non-zero leaves \<open>createdAt\<close> as it is and sets \<open>updatedAt\<close> to its clock reading, so
  \<open>updatedAt\<close> is strictly later than before exactly when that reading is later than the
  previous \<open>updatedAt\<close>. Both hold whether or not the store accepts the write, and for
  every extension of \<open>Document\<close>, so for \<open>Person\<close> and for \<open>Relationship\<close>.
\<close>

theorem timestamp_discipline:
  "CreatedAt (fst (snd (Create now r e))) = (if IsZero (CreatedAt e) then now else CreatedAt e)
   \<and> (\<not> IsZero (CreatedAt e) \<longrightarrow>
        CreatedAt (fst (snd (Update now r i e))) = CreatedAt e
      \<and> UpdatedAt (fst (snd (Update now r i e))) = now
      \<and> (UpdatedAt e < UpdatedAt (fst (snd (Update now r i e)))
           \<longleftrightarrow> UpdatedAt e < now))"
  by (simp add: Create_entity Update_entity stamps split: sum.splits)

text \<open>
  The theorem at sample data: Charles is created at the reading 9, and Ada, created at 3
  and last written at 7, is updated at 9.
\<close>

theorem timestamp_discipline_witness:
  "CreatedAt (fst (snd (Create 9 persons_with_ada charles))) = 9
   \<and> \<not> IsZero (CreatedAt ada)
   \<and> CreatedAt (fst (snd (Update 9 persons_with_ada ''0'' ada))) = 3
   \<and> UpdatedAt (fst (snd (Update 9 persons_with_ada ''0'' ada))) = 9
   \<and> UpdatedAt ada < UpdatedAt (fst (snd (Update 9 persons_with_ada ''0'' ada)))"
  using timestamp_discipline [of 9 persons_with_ada charles "''0''"]
    timestamp_discipline [of 9 persons_with_ada ada "''0''"]
  by (simp add: IsZero_def ada_def charles_def)

subsection \<open>Failed writes\<close>

text \<open>
  C2, as stated, asks a failing \<open>Create\<close> to leave the entity exactly as it was. The
  timestamps are stamped before the store is asked: with the store out of reach,
  \<open>Create\<close> returns its error and Charles is no longer the entity that was passed in.
\<close>

theorem Create_failure_changes_entity:
  "fst (Create 9 persons_down charles) =
     Some (Errorf ''failed to create entity'' (Some (ArangoError Unavailable)))
   \<and> fst (snd (Create 9 persons_down charles)) \<noteq> charles"
  by (simp add: Create_def sample_defs store_defs entity_defs json_defs)

text \<open>
  C2, amended: when \<open>Create\<close> fails, its error wraps the store's error under the message
  "failed to create entity", and the entity keeps every field but the timestamps, the
  identity metadata included: \<open>updatedAt\<close> is the clock reading, and \<open>createdAt\<close> is the
  clock reading if it was zero and unchanged otherwise. When \<open>Update\<close> fails, its error wraps
  the store's error, under "entity not found" for the store's not-found error and under
  "failed to update entity" for any other; the entity keeps every field but the timestamps,
  \<open>updatedAt\<close> is the clock reading, and a non-zero \<open>createdAt\<close> is unchanged.
\<close>

theorem failed_write_keeps_all_but_timestamps:
  "(fst (Create now r e) = Some err \<longrightarrow>
      (\<exists>cause. err = Errorf ''failed to create entity'' (Some (ArangoError cause)))
    \<and> (fst (snd (Create now r e)))\<lparr>CreatedAt := CreatedAt e, UpdatedAt := UpdatedAt e\<rparr> = e
    \<and> UpdatedAt (fst (snd (Create now r e))) = now
    \<and> CreatedAt (fst (snd (Create now r e))) =
        (if IsZero (CreatedAt e) then now else CreatedAt e))
   \<and> (fst (Update now r i e) = Some err \<longrightarrow>
      (\<exists>cause. err = Errorf (if cause = NotFound then ''entity not found''
                             else ''failed to update entity'') (Some (ArangoError cause)))
    \<and> (fst (snd (Update now r i e)))\<lparr>CreatedAt := CreatedAt e, UpdatedAt := UpdatedAt e\<rparr> = e
    \<and> UpdatedAt (fst (snd (Update now r i e))) = now
    \<and> (\<not> IsZero (CreatedAt e) \<longrightarrow>
          CreatedAt (fst (snd (Update now r i e))) = CreatedAt e))"
  by (auto simp add: Create_entity Update_entity Create_error Update_error stamps
      untouched_SetTimestamps IsNotFound_def split: sum.splits)

text \<open>
  The theorem at sample data: Charles created while the store is out of reach, and Ada
  updated under a key the store does not hold.
\<close>

theorem failed_write_keeps_all_but_timestamps_witness:
  "fst (Create 9 persons_down charles) =
      Some (Errorf ''failed to create entity'' (Some (ArangoError Unavailable)))
   \<and> (fst (snd (Create 9 persons_down charles)))\<lparr>CreatedAt := 0, UpdatedAt := 0\<rparr> = charles
   \<and> UpdatedAt (fst (snd (Create 9 persons_down charles))) = 9
   \<and> CreatedAt (fst (snd (Create 9 persons_down charles))) = 9
   \<and> fst (Update 9 persons_with_ada ''5'' ada) =
      Some (Errorf ''entity not found'' (Some (ArangoError NotFound)))
   \<and> (fst (snd (Update 9 persons_with_ada ''5'' ada)))\<lparr>CreatedAt := 3, UpdatedAt := 7\<rparr>
       = ada
   \<and> UpdatedAt (fst (snd (Update 9 persons_with_ada ''5'' ada))) = 9
   \<and> CreatedAt (fst (snd (Update 9 persons_with_ada ''5'' ada))) = 3"
proof -
  have c: "fst (Create 9 persons_down charles) =
      Some (Errorf ''failed to create entity'' (Some (ArangoError Unavailable)))"
    by (simp add: Create_def sample_defs store_defs entity_defs json_defs)
  have u: "fst (Update 9 persons_with_ada ''5'' ada) =
      Some (Errorf ''entity not found'' (Some (ArangoError NotFound)))"
    by (simp add: Update_def sample_defs store_defs entity_defs json_defs IsNotFound_def)
  from c u
    failed_write_keeps_all_but_timestamps [of 9 persons_down charles
      "Errorf ''failed to create entity'' (Some (ArangoError Unavailable))" "''5''"]
    failed_write_keeps_all_but_timestamps [of 9 persons_with_ada ada
      "Errorf ''entity not found'' (Some (ArangoError NotFound))" "''5''"]
  show ?thesis
    by (simp add: IsZero_def ada_def charles_def)
qed

subsection \<open>Create, then GetByID\<close>

lemma Create_then_GetByID_payload:
  assumes ok: "Create now r e = (None, e', r')"
    and fresh: "IsZero (CreatedAt e)"
    and enc: "\<And>doc k i v. json r (SetTimestamps now now e) = Some doc \<Longrightarrow>
                doc\<lparr>Key := k, ID := i, Rev := v\<rparr> =
                  (SetTimestamps now now e)\<lparr>Key := k, ID := i, Rev := v\<rparr>"
  shows "fst (GetByID r' (Key e')) = Inr e'
       \<and> e' = e\<lparr>Key := Key e', ID := ID e', Rev := Rev e', CreatedAt := now, UpdatedAt := now\<rparr>
       \<and> Key e' \<noteq> [] \<and> ID e' \<noteq> [] \<and> Rev e' \<noteq> []
       \<and> CreatedAt e' = UpdatedAt e'"
proof -
  let ?body = "SetTimestamps now now e"
  from ok obtain meta where cd: "CreateDocument r ?body = (Inr meta, r')"
    and e': "e' = SetMetadata (meta_Key meta) (meta_ID meta) (meta_Rev meta) ?body"
    by (auto simp add: Create_def Let_def split: prod.splits sum.splits)
  from CreateDocument_ok [OF cd] obtain doc
    where doc: "json r ?body = Some doc"
      and found: "find (\<lambda>d. Key d = meta_Key meta) (documents r') =
                    Some (doc\<lparr>Key := meta_Key meta, ID := meta_ID meta, Rev := meta_Rev meta\<rparr>)"
      and up: "outage r' = None"
      and ne: "meta_Key meta \<noteq> []" "meta_ID meta \<noteq> []" "meta_Rev meta \<noteq> []"
    by blast
  have stored: "doc\<lparr>Key := meta_Key meta, ID := meta_ID meta, Rev := meta_Rev meta\<rparr> = e'"
    by (simp add: enc [OF doc] e' SetMetadata_def)
  have key: "Key e' = meta_Key meta"
    by (simp add: e' SetMetadata_def)
  have meta: "meta_of e' = meta"
    by (simp add: meta_of_def e' SetMetadata_def)
  have same: "SetMetadata (meta_Key meta) (meta_ID meta) (meta_Rev meta) e' = e'"
    by (simp add: e' SetMetadata_def)
  have get: "fst (GetByID r' (Key e')) = Inr e'"
    by (simp add: GetByID_def ReadDocument_def received_def up found key stored meta same)
  have shape: "e' = e\<lparr>Key := Key e', ID := ID e', Rev := Rev e',
                      CreatedAt := now, UpdatedAt := now\<rparr>"
    using fresh by (simp add: e' SetMetadata_def SetTimestamps_def)
  have "Key e' \<noteq> []" "ID e' \<noteq> []" "Rev e' \<noteq> []" "CreatedAt e' = UpdatedAt e'"
    using ne fresh by (simp_all add: e' SetMetadata_def SetTimestamps_def)
  with get shape show ?thesis by simp
qed

lemma json_Person_payload:
  assumes "json_Person b = Some doc"
    and "json_string (FirstName b) = FirstName b" "json_string (LastName b) = LastName b"
    and "json_string (Gender b) = Gender b" "json_string (Email b) = Email b"
    and "json_string (Phone b) = Phone b"
  shows "doc\<lparr>Key := k, ID := i, Rev := v\<rparr> = b\<lparr>Key := k, ID := i, Rev := v\<rparr>"
  using assms by (auto simp add: json_Person_def split: if_splits)

lemma json_Relationship_payload:
  assumes "json_Relationship b = Some doc"
    and "json_string (From b) = From b" "json_string (To b) = To b"
    and "json_string (RelationType b) = RelationType b" "json_string (Notes b) = Notes b"
  shows "doc\<lparr>Key := k, ID := i, Rev := v\<rparr> = b\<lparr>Key := k, ID := i, Rev := v\<rparr>"
  using assms by (auto simp add: json_Relationship_def split: if_splits)

lemma SetTimestamps_Person_fields:
  "FirstName (SetTimestamps c u p) = FirstName p" "LastName (SetTimestamps c u p) = LastName p"
  "Gender (SetTimestamps c u p) = Gender p" "Email (SetTimestamps c u p) = Email p"
  "Phone (SetTimestamps c u p) = Phone p"
  by (simp_all add: SetTimestamps_def Let_def)

lemma SetTimestamps_Relationship_fields:
  "From (SetTimestamps c u r) = From r" "To (SetTimestamps c u r) = To r"
  "RelationType (SetTimestamps c u r) = RelationType r" "Notes (SetTimestamps c u r) = Notes r"
  by (simp_all add: SetTimestamps_def Let_def)

text \<open>
  C3, as stated, asks the entity read back after a successful \<open>Create\<close> to have
  \<open>createdAt\<close> equal to \<open>updatedAt\<close> and to be the input in every field but the identity
  metadata, for every valid entity. Grace, whose \<open>createdAt\<close> is 5, is created at the clock
  reading 9 and read back with \<open>createdAt\<close> 5 and \<open>updatedAt\<close> 9. The person whose first
  name is not valid UTF-8 is created and read back with another first name: the byte FF has
  become U+FFFD.
\<close>

theorem Create_then_GetByID_differs:
  "fst (Create 9 persons_with_ada grace) = None
   \<and> fst (GetByID (snd (snd (Create 9 persons_with_ada grace))) ''1'') =
       Inr (grace\<lparr>Key := ''1'', ID := ''persons/1'', Rev := ''_1'', UpdatedAt := 9\<rparr>)
   \<and> CreatedAt grace = 5
   \<and> fst (Create 9 persons_with_ada misencoded) = None
   \<and> fst (GetByID (snd (snd (Create 9 persons_with_ada misencoded))) ''1'') =
       Inr (misencoded\<lparr>Key := ''1'', ID := ''persons/1'', Rev := ''_1'',
                       CreatedAt := 9, UpdatedAt := 9,
                       FirstName := [CHR 0x41, CHR 0xEF, CHR 0xBF, CHR 0xBD]\<rparr>)
   \<and> FirstName misencoded \<noteq> [CHR 0x41, CHR 0xEF, CHR 0xBF, CHR 0xBD]"
  by (simp add: Create_def GetByID_def sample_defs store_defs entity_defs json_defs
      decimal.simps digit_def)

text \<open>
  C3, amended: an entity whose \<open>createdAt\<close> is zero and whose strings, the identity
  metadata apart, are valid UTF-8 (the encoding leaves them as they are) is created with
  success at the clock reading \<open>now\<close>; \<open>GetByID\<close> under the key that \<open>Create\<close> wrote
  onto the entity then returns an entity \<open>g\<close> that is the input in every field, except that
  \<open>Key\<close>, \<open>ID\<close> and \<open>Rev\<close> are now filled in and that both timestamps are \<open>now\<close>, so
  \<open>createdAt\<close> equals \<open>updatedAt\<close>; it is the entity as \<open>Create\<close> left it. This holds for a
  person in a collection of persons and for a relationship in a collection of
  relationships.
\<close>

theorem Create_then_GetByID:
  "(Create now r p = (None, p', r') \<and> json r = json_Person \<and> IsZero (CreatedAt p)
    \<and> json_string (FirstName p) = FirstName p \<and> json_string (LastName p) = LastName p
    \<and> json_string (Gender p) = Gender p \<and> json_string (Email p) = Email p
    \<and> json_string (Phone p) = Phone p
    \<longrightarrow> (\<exists>g. fst (GetByID r' (Key p')) = Inr g
           \<and> g = p\<lparr>Key := Key g, ID := ID g, Rev := Rev g, CreatedAt := now, UpdatedAt := now\<rparr>
           \<and> Key g \<noteq> [] \<and> ID g \<noteq> [] \<and> Rev g \<noteq> []
           \<and> CreatedAt g = UpdatedAt g
           \<and> g = p'))
   \<and> (Create now s l = (None, l', s') \<and> json s = json_Relationship \<and> IsZero (CreatedAt l)
    \<and> json_string (From l) = From l \<and> json_string (To l) = To l
    \<and> json_string (RelationType l) = RelationType l \<and> json_string (Notes l) = Notes l
    \<longrightarrow> (\<exists>g. fst (GetByID s' (Key l')) = Inr g
           \<and> g = l\<lparr>Key := Key g, ID := ID g, Rev := Rev g, CreatedAt := now, UpdatedAt := now\<rparr>
           \<and> Key g \<noteq> [] \<and> ID g \<noteq> [] \<and> Rev g \<noteq> []
           \<and> CreatedAt g = UpdatedAt g
           \<and> g = l'))"
proof (intro conjI impI)
  assume a: "Create now r p = (None, p', r') \<and> json r = json_Person \<and> IsZero (CreatedAt p)
    \<and> json_string (FirstName p) = FirstName p \<and> json_string (LastName p) = LastName p
    \<and> json_string (Gender p) = Gender p \<and> json_string (Email p) = Email p
    \<and> json_string (Phone p) = Phone p"
  have enc: "doc\<lparr>Key := k, ID := i, Rev := v\<rparr> =
               (SetTimestamps now now p)\<lparr>Key := k, ID := i, Rev := v\<rparr>"
    if "json r (SetTimestamps now now p) = Some doc" for doc k i v
    using that a by (intro json_Person_payload) (simp_all add: SetTimestamps_Person_fields)
  from a have ok: "Create now r p = (None, p', r')" and fresh: "IsZero (CreatedAt p)"
    by simp_all
  from Create_then_GetByID_payload [OF ok fresh enc]
  show "\<exists>g. fst (GetByID r' (Key p')) = Inr g
           \<and> g = p\<lparr>Key := Key g, ID := ID g, Rev := Rev g, CreatedAt := now, UpdatedAt := now\<rparr>
           \<and> Key g \<noteq> [] \<and> ID g \<noteq> [] \<and> Rev g \<noteq> []
           \<and> CreatedAt g = UpdatedAt g
           \<and> g = p'"
    by blast
next
  assume a: "Create now s l = (None, l', s') \<and> json s = json_Relationship \<and> IsZero (CreatedAt l)
    \<and> json_string (From l) = From l \<and> json_string (To l) = To l
    \<and> json_string (RelationType l) = RelationType l \<and> json_string (Notes l) = Notes l"
  have enc: "doc\<lparr>Key := k, ID := i, Rev := v\<rparr> =
               (SetTimestamps now now l)\<lparr>Key := k, ID := i, Rev := v\<rparr>"
    if "json s (SetTimestamps now now l) = Some doc" for doc k i v
    using that a
    by (intro json_Relationship_payload) (simp_all add: SetTimestamps_Relationship_fields)
  from a have ok: "Create now s l = (None, l', s')" and fresh: "IsZero (CreatedAt l)"
    by simp_all
  from Create_then_GetByID_payload [OF ok fresh enc]
  show "\<exists>g. fst (GetByID s' (Key l')) = Inr g
           \<and> g = l\<lparr>Key := Key g, ID := ID g, Rev := Rev g, CreatedAt := now, UpdatedAt := now\<rparr>
           \<and> Key g \<noteq> [] \<and> ID g \<noteq> [] \<and> Rev g \<noteq> []
           \<and> CreatedAt g = UpdatedAt g
           \<and> g = l'"
    by blast
qed

text \<open>
  The theorem at sample data: Charles, created at the reading 9 in the collection that
  holds Ada, is stored under the key 1 and read back; a new spouse relationship, created at
  9 in the collection of three relationships, is stored under the key 3 and read back.
\<close>

theorem Create_then_GetByID_witness:
  "fst (Create 9 persons_with_ada charles) = None
   \<and> json persons_with_ada = json_Person \<and> IsZero (CreatedAt charles)
   \<and> json_string (FirstName charles) = FirstName charles
   \<and> json_string (LastName charles) = LastName charles
   \<and> json_string (Gender charles) = Gender charles
   \<and> json_string (Email charles) = Email charles
   \<and> json_string (Phone charles) = Phone charles
   \<and> fst (GetByID (snd (snd (Create 9 persons_with_ada charles))) ''1'') =
       Inr (charles\<lparr>Key := ''1'', ID := ''persons/1'', Rev := ''_1'',
                    CreatedAt := 9, UpdatedAt := 9\<rparr>)
   \<and> fst (Create 9 three_relationships spouse_new) = None
   \<and> json three_relationships = json_Relationship \<and> IsZero (CreatedAt spouse_new)
   \<and> json_string (From spouse_new) = From spouse_new
   \<and> json_string (To spouse_new) = To spouse_new
   \<and> json_string (RelationType spouse_new) = RelationType spouse_new
   \<and> json_string (Notes spouse_new) = Notes spouse_new
   \<and> fst (GetByID (snd (snd (Create 9 three_relationships spouse_new))) ''3'') =
       Inr (spouse_new\<lparr>Key := ''3'', ID := ''relationships/3'', Rev := ''_3'',
                       CreatedAt := 9, UpdatedAt := 9\<rparr>)"
proof -
  let ?p' = "fst (snd (Create 9 persons_with_ada charles))"
  let ?r' = "snd (snd (Create 9 persons_with_ada charles))"
  let ?l' = "fst (snd (Create 9 three_relationships spouse_new))"
  let ?s' = "snd (snd (Create 9 three_relationships spouse_new))"
  have okp: "fst (Create 9 persons_with_ada charles) = None"
    by (simp add: Create_def sample_defs store_defs entity_defs json_defs
        decimal.simps digit_def)
  then have okp': "Create 9 persons_with_ada charles = (None, ?p', ?r')"
    by (metis prod.collapse)
  have jp: "json persons_with_ada = json_Person"
    by (simp add: persons_with_ada_def)
  have fp: "IsZero (CreatedAt charles)"
    by (simp add: IsZero_def charles_def)
  have vp: "json_string (FirstName charles) = FirstName charles"
    "json_string (LastName charles) = LastName charles"
    "json_string (Gender charles) = Gender charles"
    "json_string (Email charles) = Email charles"
    "json_string (Phone charles) = Phone charles"
    by (simp_all add: charles_def json_defs)
  have p': "?p' = charles\<lparr>Key := ''1'', ID := ''persons/1'', Rev := ''_1'',
                          CreatedAt := 9, UpdatedAt := 9\<rparr>"
    by (simp add: Create_def sample_defs store_defs entity_defs json_defs
        decimal.simps digit_def)
  have keyp: "Key ?p' = ''1''"
    by (simp add: p')
  from Create_then_GetByID [of 9 persons_with_ada charles ?p' ?r'] okp' jp fp vp
  have "fst (GetByID ?r' (Key ?p')) = Inr ?p'"
    by blast
  then have "fst (GetByID ?r' ''1'') = Inr ?p'"
    by (simp only: keyp)
  then have gp: "fst (GetByID ?r' ''1'') =
      Inr (charles\<lparr>Key := ''1'', ID := ''persons/1'', Rev := ''_1'',
                   CreatedAt := 9, UpdatedAt := 9\<rparr>)"
    by (simp only: p')
  have okl: "fst (Create 9 three_relationships spouse_new) = None"
    by (simp add: Create_def sample_defs three_relationships_def sibling_01_def
        parent_20_def untyped_21_def store_defs entity_defs json_defs decimal.simps digit_def)
  then have okl': "Create 9 three_relationships spouse_new = (None, ?l', ?s')"
    by (metis prod.collapse)
  have jl: "json three_relationships = json_Relationship"
    by (simp add: three_relationships_def)
  have fl: "IsZero (CreatedAt spouse_new)"
    by (simp add: IsZero_def spouse_new_def)
  have vl: "json_string (From spouse_new) = From spouse_new"
    "json_string (To spouse_new) = To spouse_new"
    "json_string (RelationType spouse_new) = RelationType spouse_new"
    "json_string (Notes spouse_new) = Notes spouse_new"
    by (simp_all add: spouse_new_def json_defs)
  have l': "?l' = spouse_new\<lparr>Key := ''3'', ID := ''relationships/3'', Rev := ''_3'',
                             CreatedAt := 9, UpdatedAt := 9\<rparr>"
    by (simp add: Create_def sample_defs three_relationships_def sibling_01_def
        parent_20_def untyped_21_def store_defs entity_defs json_defs decimal.simps digit_def)
  have keyl: "Key ?l' = ''3''"
    by (simp add: l')
  from Create_then_GetByID [of 9 _ _ _ _ three_relationships spouse_new ?l' ?s'] okl' jl fl vl
  have "fst (GetByID ?s' (Key ?l')) = Inr ?l'"
    by blast
  then have "fst (GetByID ?s' ''3'') = Inr ?l'"
    by (simp only: keyl)
  then have gl: "fst (GetByID ?s' ''3'') =
      Inr (spouse_new\<lparr>Key := ''3'', ID := ''relationships/3'', Rev := ''_3'',
                      CreatedAt := 9, UpdatedAt := 9\<rparr>)"
    by (simp only: l')
  from okp jp fp vp gp okl jl fl vl gl show ?thesis
    by (intro conjI)
qed

subsection \<open>Reading a cursor\<close>

lemma read_all_Inr:
  "read_all msg (map Inr ds) acc = Inr (if ds = [] then acc else Slice (elems acc @ ds))"
  by (induction ds arbitrary: acc) (simp_all add: append_slice_def)

lemma Query_up:
  "outage r = None \<Longrightarrow>
     Query r condition = (Inr (map Inr (filter condition (documents r))), received QueryReq r)"
  by (simp add: Query_def received_def Let_def)

lemma found_all:
  "outage r = None \<Longrightarrow>
     (case Query r condition of
        (Inl err, r') \<Rightarrow> (Inl (Errorf qmsg (Some (ArangoError err))), r')
      | (Inr cursor, r') \<Rightarrow> (read_all rmsg cursor nil, r')) =
     (Inr (if filter condition (documents r) = [] then nil
           else Slice (filter condition (documents r))), received QueryReq r)"
  by (simp add: Query_up read_all_Inr)

lemma elems_if_nil: "elems (if xs = [] then nil else Slice xs) = xs"
  by simp

subsection \<open>List\<close>

text \<open>
  C7, as stated, asks \<open>List\<close> on an empty collection for an empty sequence that is not
  null. On the empty persons collection the query succeeds and \<open>List\<close> returns the
  \<^verbatim>\<open>nil\<close> slice it declared, not an empty slice that has been allocated.
\<close>

theorem List_empty_is_nil:
  "documents no_persons = [] \<and> outage no_persons = None
   \<and> fst (List no_persons) = Inr nil \<and> fst (List no_persons) \<noteq> Inr (Slice [])"
  by (simp add: List_def Query_def received_def Let_def no_persons_def)

text \<open>
  C7, amended: when the query succeeds, \<open>List\<close> returns a slice that holds the documents
  of the collection, and that slice is \<^verbatim>\<open>nil\<close> exactly when the collection is empty; so
  on an empty collection \<open>List\<close> returns the \<^verbatim>\<open>nil\<close> slice, of length 0.
\<close>

theorem List_nil_iff_empty:
  assumes "outage r = None"
  shows "\<exists>entities. fst (List r) = Inr entities
           \<and> elems entities = documents r
           \<and> len entities = length (documents r)
           \<and> (entities = nil \<longleftrightarrow> documents r = [])"
  using assms by (simp add: List_def Query_up read_all_Inr len_def)

text \<open>
  The theorem on the empty collection, where the slice is \<^verbatim>\<open>nil\<close>, and on the
  collection that holds Ada, where it is not.
\<close>

theorem List_nil_iff_empty_witness:
  "outage no_persons = None \<and> fst (List no_persons) = Inr nil
   \<and> outage persons_with_ada = None \<and> fst (List persons_with_ada) = Inr (Slice [ada])"
proof -
  have up0: "outage no_persons = None"
    by (simp add: no_persons_def)
  have docs0: "documents no_persons = []"
    by (simp add: no_persons_def)
  have up: "outage persons_with_ada = None"
    by (simp add: persons_with_ada_def)
  have docs: "documents persons_with_ada = [ada]"
    by (simp add: persons_with_ada_def)
  from List_nil_iff_empty [OF up0] docs0
  have 0: "fst (List no_persons) = Inr nil"
    by auto
  from List_nil_iff_empty [OF up] obtain entities
    where l: "fst (List persons_with_ada) = Inr entities"
      and e: "elems entities = documents persons_with_ada"
    by blast
  from e docs have "entities = Slice [ada]"
    by (cases entities) simp_all
  with l have 1: "fst (List persons_with_ada) = Inr (Slice [ada])"
    by simp
  from up0 0 up 1 show ?thesis
    by (intro conjI)
qed

subsection \<open>FindByPerson\<close>

text \<open>
  C5: when the query succeeds, \<open>FindByPerson\<close> returns the stored relationships that have
  \<open>personID\<close> as their \<open>from\<close> or as their \<open>to\<close>, in store order, and no other; and the
  lookup does not depend on the direction: on the collection with the endpoints of every
  relationship exchanged it returns the same relationships, exchanged.
\<close>

theorem FindByPerson_either_endpoint:
  assumes "outage r = None"
  shows "\<exists>rels rels'.
           fst (FindByPerson r personID) = Inr rels
         \<and> elems rels = filter (\<lambda>rel. From rel = personID \<or> To rel = personID) (documents r)
         \<and> set (elems rels) =
             {rel. rel \<in> set (documents r) \<and> (From rel = personID \<or> To rel = personID)}
         \<and> fst (FindByPerson
                  (r\<lparr>documents := map (\<lambda>rel. rel\<lparr>From := To rel, To := From rel\<rparr>) (documents r)\<rparr>)
                  personID) = Inr rels'
         \<and> elems rels' = map (\<lambda>rel. rel\<lparr>From := To rel, To := From rel\<rparr>) (elems rels)"
proof -
  let ?P = "\<lambda>rel. From rel = personID \<or> To rel = personID"
  let ?swap = "\<lambda>rel::Relationship. rel\<lparr>From := To rel, To := From rel\<rparr>"
  let ?r' = "r\<lparr>documents := map ?swap (documents r)\<rparr>"
  have up': "outage ?r' = None"
    using assms by simp
  have "filter ?P (map ?swap ds) = map ?swap (filter ?P ds)" for ds
    by (induction ds) auto
  then have sw: "filter ?P (map ?swap (documents r)) = map ?swap (filter ?P (documents r))" .
  have a: "fst (FindByPerson r personID) =
             Inr (if filter ?P (documents r) = [] then nil else Slice (filter ?P (documents r)))"
    by (simp add: FindByPerson_def found_all [OF assms])
  have b: "fst (FindByPerson ?r' personID) =
             Inr (if filter ?P (documents ?r') = [] then nil
                  else Slice (filter ?P (documents ?r')))"
    by (simp only: FindByPerson_def found_all [OF up'] fst_conv)
  have c: "filter ?P (documents ?r') = map ?swap (filter ?P (documents r))"
    using sw by simp
  show ?thesis
    apply (rule exI [of _ "if filter ?P (documents r) = [] then nil
                           else Slice (filter ?P (documents r))"])
    apply (rule exI [of _ "if filter ?P (documents ?r') = [] then nil
                           else Slice (filter ?P (documents ?r'))"])
    apply (simp only: a b elems_if_nil c)
    apply auto
    done
qed

text \<open>
  The theorem on three stored relationships: person 1 is the \<open>to\<close> of the first and of the
  third, and an endpoint of neither side of the second.
\<close>

theorem FindByPerson_either_endpoint_witness:
  "outage three_relationships = None
   \<and> fst (FindByPerson three_relationships ''persons/1'') = Inr (Slice [sibling_01, untyped_21])"
proof -
  have up: "outage three_relationships = None"
    by (simp add: three_relationships_def)
  have f: "filter (\<lambda>rel. From rel = ''persons/1'' \<or> To rel = ''persons/1'')
             (documents three_relationships) = [sibling_01, untyped_21]"
    by (simp add: three_relationships_def sibling_01_def parent_20_def untyped_21_def)
  from FindByPerson_either_endpoint [OF up, of "''persons/1''"] obtain rels
    where l: "fst (FindByPerson three_relationships ''persons/1'') = Inr rels"
      and e: "elems rels = filter (\<lambda>rel. From rel = ''persons/1'' \<or> To rel = ''persons/1'')
                (documents three_relationships)"
    by blast
  from e f have "rels = Slice [sibling_01, untyped_21]"
    by (cases rels) simp_all
  with l up show ?thesis by simp
qed

subsection \<open>FindByName\<close>



subsection \<open>FindByType\<close>

text \<open>
  C10: when the query succeeds, \<open>FindByType\<close> with the empty string returns the stored
  relationships whose \<open>relationType\<close> is the empty string, and so not every relationship
  as soon as one is stored with a type; \<open>GetRelationshipsByType\<close> with the empty string
  returns the error "relationship type is required" and leaves the repository as it was,
  with no request sent to the store.
\<close>

theorem FindByType_empty_is_no_pass_through:
  assumes "outage r = None"
  shows "\<exists>rels.
           fst (FindByType r []) = Inr rels
         \<and> elems rels = filter (\<lambda>rel. RelationType rel = []) (documents r)
         \<and> ((\<exists>rel. rel \<in> set (documents r) \<and> RelationType rel \<noteq> [])
              \<longrightarrow> elems rels \<noteq> documents r)
         \<and> GetRelationshipsByType r [] =
             (Inl (Errorf ''relationship type is required'' None), r)"
proof -
  let ?P = "\<lambda>rel::Relationship. RelationType rel = []"
  have "(\<exists>rel. rel \<in> set (documents r) \<and> RelationType rel \<noteq> [])
          \<longrightarrow> filter ?P (documents r) \<noteq> documents r"
    by (auto simp add: filter_id_conv)
  then show ?thesis
    by (auto simp add: FindByType_def found_all [OF assms] GetRelationshipsByType_def)
qed

text \<open>
  The theorem on three stored relationships, one of them stored without a type.
\<close>

theorem FindByType_empty_is_no_pass_through_witness:
  "outage three_relationships = None
   \<and> fst (FindByType three_relationships []) = Inr (Slice [untyped_21])
   \<and> documents three_relationships = [sibling_01, parent_20, untyped_21]
   \<and> GetRelationshipsByType three_relationships [] =
       (Inl (Errorf ''relationship type is required'' None), three_relationships)"
proof -
  have up: "outage three_relationships = None"
    by (simp add: three_relationships_def)
  have docs: "documents three_relationships = [sibling_01, parent_20, untyped_21]"
    by (simp add: three_relationships_def)
  have f: "filter (\<lambda>rel. RelationType rel = []) (documents three_relationships) = [untyped_21]"
    by (simp add: docs sibling_01_def parent_20_def untyped_21_def)
  from FindByType_empty_is_no_pass_through [OF up] obtain rels
    where l: "fst (FindByType three_relationships []) = Inr rels"
      and e: "elems rels = filter (\<lambda>rel. RelationType rel = []) (documents three_relationships)"
      and g: "GetRelationshipsByType three_relationships [] =
                (Inl (Errorf ''relationship type is required'' None), three_relationships)"
    by blast
  from e f have "rels = Slice [untyped_21]"
    by (cases rels) simp_all
  with l up docs g show ?thesis by simp
qed

subsection \<open>CreateRelationship\<close>

lemma validTypes_iff:
  "index_bool validTypes t \<longleftrightarrow> t \<in> {''parent'', ''child'', ''spouse'', ''sibling''}"
  by (simp add: index_bool_def validTypes_def RelationTypeParent_def RelationTypeChild_def
      RelationTypeSpouse_def RelationTypeSibling_def)

lemmas trim_defs = TrimSpace_def asciiSpace_def isSpace2_def isSpace3_def

lemma valid_type_not_blank:
  "t \<in> {''parent'', ''child'', ''spouse'', ''sibling''} \<Longrightarrow> TrimSpace t \<noteq> []"
  by (auto simp add: trim_defs)

text \<open>
  C4: a request whose \<open>from\<close> equals its \<open>to\<close>, and a request whose \<open>relationType\<close> is not
  one of parent, child, spouse, sibling, are both refused by \<open>validateCreateRequest\<close>:
  \<open>CreateRelationship\<close> returns that error, which wraps no error of the store, and the
  repository is as it was, so the store has received no request.
\<close>

theorem CreateRelationship_rejects_before_store:
  assumes "req_From req = req_To req
         \<or> req_RelationType req \<notin> {''parent'', ''child'', ''spouse'', ''sibling''}"
  shows "\<exists>msg. validateCreateRequest req = Some (Errorf msg None)
              \<and> CreateRelationship now repo req = (Inl (Errorf msg None), repo)
              \<and> requests (snd (CreateRelationship now repo req)) = requests repo"
proof -
  from assms have "\<exists>msg. validateCreateRequest req = Some (Errorf msg None)"
    by (auto simp add: validateCreateRequest_def validTypes_iff)
  then obtain msg where v: "validateCreateRequest req = Some (Errorf msg None)" ..
  then have "CreateRelationship now repo req = (Inl (Errorf msg None), repo)"
    by (simp add: CreateRelationship_def)
  with v show ?thesis by auto
qed

text \<open>
  The theorem at a request from person 0 to person 0, and at a request of type "mentor",
  with three relationships stored.
\<close>

theorem CreateRelationship_rejects_before_store_witness:
  "req_From self_request = req_To self_request
   \<and> CreateRelationship 9 three_relationships self_request =
       (Inl (Errorf ''from and to must be different persons'' None), three_relationships)
   \<and> req_RelationType mentor_request \<notin> {''parent'', ''child'', ''spouse'', ''sibling''}
   \<and> CreateRelationship 9 three_relationships mentor_request =
       (Inl (Errorf ''invalid relationship type: mentor. Valid types are: parent, child, spouse, sibling'' None),
        three_relationships)"
proof -
  have s: "req_From self_request = req_To self_request"
    by (simp add: self_request_def)
  have m: "req_RelationType mentor_request \<notin> {''parent'', ''child'', ''spouse'', ''sibling''}"
    by (simp add: mentor_request_def)
  have vs: "validateCreateRequest self_request =
      Some (Errorf ''from and to must be different persons'' None)"
    by (simp add: validateCreateRequest_def self_request_def trim_defs)
  have vm: "validateCreateRequest mentor_request =
      Some (Errorf ''invalid relationship type: mentor. Valid types are: parent, child, spouse, sibling'' None)"
    by (simp add: validateCreateRequest_def mentor_request_def trim_defs validTypes_iff)
  from CreateRelationship_rejects_before_store [of self_request 9 three_relationships] s vs
  have 1: "CreateRelationship 9 three_relationships self_request =
       (Inl (Errorf ''from and to must be different persons'' None), three_relationships)"
    by auto
  from CreateRelationship_rejects_before_store [of mentor_request 9 three_relationships] m vm
  have 2: "CreateRelationship 9 three_relationships mentor_request =
       (Inl (Errorf ''invalid relationship type: mentor. Valid types are: parent, child, spouse, sibling'' None),
        three_relationships)"
    by auto
  from s m 1 2 show ?thesis by (intro conjI)
qed

text \<open>
  C9, as stated, lets every request pass whose endpoints differ as written, are equal once
  trimmed, and whose type is valid. Endpoints of one and of two spaces are such a request,
  and it is refused, \<open>from\<close> being empty once trimmed: nothing is sent to the store.
\<close>

theorem blank_endpoints_are_refused:
  "req_From blank_request \<noteq> req_To blank_request
   \<and> TrimSpace (req_From blank_request) = TrimSpace (req_To blank_request)
   \<and> req_RelationType blank_request \<in> {''parent'', ''child'', ''spouse'', ''sibling''}
   \<and> validateCreateRequest blank_request = Some (Errorf ''from is required'' None)
   \<and> CreateRelationship 9 three_relationships blank_request =
       (Inl (Errorf ''from is required'' None), three_relationships)"
  by (simp add: CreateRelationship_def validateCreateRequest_def blank_request_def trim_defs)

lemma Create_requests:
  "requests (snd (snd (Create now r e))) =
     requests r @ [CreateDocumentReq (SetTimestamps now now e)]"
  by (simp add: Create_def CreateDocument_def received_def Let_def
      split: option.splits prod.splits sum.splits)

lemma Create_cases:
  obtains err e' r' where "Create now r e = (Some err, e', r')"
  | e' r' where "Create now r e = (None, e', r')"
  by (cases "Create now r e") auto

text \<open>
  C9, amended: a request whose \<open>from\<close> and \<open>to\<close> differ as written, are equal once trimmed
  and are not empty once trimmed, and whose \<open>relationType\<close> is one of the four, passes
  validation; \<open>CreateRelationship\<close> sends the store one insert, of a relationship whose
  \<open>from\<close> and \<open>to\<close> are both the trimmed endpoint, and a relationship that it returns has
  equal endpoints.
\<close>

theorem CreateRelationship_padded_endpoints:
  assumes differ: "req_From req \<noteq> req_To req"
    and same: "TrimSpace (req_From req) = TrimSpace (req_To req)"
    and filled: "TrimSpace (req_From req) \<noteq> []"
    and valid: "req_RelationType req \<in> {''parent'', ''child'', ''spouse'', ''sibling''}"
  shows "validateCreateRequest req = None
       \<and> (\<exists>body. requests (snd (CreateRelationship now repo req)) =
                    requests repo @ [CreateDocumentReq body]
                \<and> From body = TrimSpace (req_From req)
                \<and> To body = TrimSpace (req_From req))
       \<and> (\<forall>rel. fst (CreateRelationship now repo req) = Inr rel \<longrightarrow> From rel = To rel)"
proof -
  let ?rel = "\<lparr>Key = [], ID = [], Rev = [], CreatedAt = 0, UpdatedAt = 0,
                From = TrimSpace (req_From req), To = TrimSpace (req_To req),
                RelationType = TrimSpace (req_RelationType req),
                StartDate = req_StartDate req, EndDate = req_EndDate req,
                Notes = TrimSpace (req_Notes req)\<rparr>"
  have v: "validateCreateRequest req = None"
    using differ same filled valid valid_type_not_blank [OF valid]
    by (simp add: validateCreateRequest_def validTypes_iff)
  have repo': "snd (CreateRelationship now repo req) = snd (snd (Create now repo ?rel))"
    by (cases rule: Create_cases [of now repo ?rel])
      (simp_all add: CreateRelationship_def v)
  have sent: "requests (snd (CreateRelationship now repo req)) =
                requests repo @ [CreateDocumentReq (SetTimestamps now now ?rel)]"
    by (simp only: repo' Create_requests)
  have ends: "From (SetTimestamps now now ?rel) = TrimSpace (req_From req)"
    "To (SetTimestamps now now ?rel) = TrimSpace (req_From req)"
    using same by (simp_all add: SetTimestamps_def Let_def)
  have ret: "From rel = To rel" if "fst (CreateRelationship now repo req) = Inr rel" for rel
  proof (cases rule: Create_cases [of now repo ?rel])
    case (1 err e' r')
    with that show ?thesis
      by (simp add: CreateRelationship_def v)
  next
    case (2 e' r')
    with that have "rel = fst (snd (Create now repo ?rel))"
      by (simp add: CreateRelationship_def v)
    then show ?thesis
      using same
      by (simp add: Create_entity SetMetadata_def SetTimestamps_def Let_def split: sum.splits)
  qed
  from v sent ends ret show ?thesis
    by blast
qed

text \<open>
  The theorem at a request from "persons/0" to "persons/0 " (with a space at its end): the
  store receives, and keeps, a parent relationship from person 0 to person 0.
\<close>

theorem CreateRelationship_padded_endpoints_witness:
  "req_From padded_request \<noteq> req_To padded_request
   \<and> TrimSpace (req_From padded_request) = TrimSpace (req_To padded_request)
   \<and> TrimSpace (req_From padded_request) = ''persons/0''
   \<and> req_RelationType padded_request \<in> {''parent'', ''child'', ''spouse'', ''sibling''}
   \<and> validateCreateRequest padded_request = None
   \<and> fst (CreateRelationship 9 three_relationships padded_request) =
       Inr \<lparr>Key = ''3'', ID = ''relationships/3'', Rev = ''_3'', CreatedAt = 9, UpdatedAt = 9,
            From = ''persons/0'', To = ''persons/0'', RelationType = ''parent'',
            StartDate = 0, EndDate = 0, Notes = []\<rparr>"
proof -
  have differ: "req_From padded_request \<noteq> req_To padded_request"
    by (simp add: padded_request_def)
  have filled: "TrimSpace (req_From padded_request) = ''persons/0''"
    by (simp add: padded_request_def trim_defs)
  have same: "TrimSpace (req_From padded_request) = TrimSpace (req_To padded_request)"
    by (simp add: padded_request_def trim_defs)
  have filled': "TrimSpace (req_From padded_request) \<noteq> []"
    by (simp add: filled)
  have valid: "req_RelationType padded_request \<in> {''parent'', ''child'', ''spouse'', ''sibling''}"
    by (simp add: padded_request_def)
  have v: "validateCreateRequest padded_request = None"
    using CreateRelationship_padded_endpoints [OF differ same filled' valid] by blast
  have "fst (CreateRelationship 9 three_relationships padded_request) =
       Inr \<lparr>Key = ''3'', ID = ''relationships/3'', Rev = ''_3'', CreatedAt = 9, UpdatedAt = 9,
            From = ''persons/0'', To = ''persons/0'', RelationType = ''parent'',
            StartDate = 0, EndDate = 0, Notes = []\<rparr>"
    by (simp add: CreateRelationship_def validateCreateRequest_def validTypes_iff
        Create_def store_defs entity_defs json_defs
        three_relationships_def sibling_01_def parent_20_def untyped_21_def
        padded_request_def trim_defs decimal.simps digit_def)
  with differ same filled valid v show ?thesis
    by (intro conjI)
qed

subsection \<open>ensureCollection\<close>

lemmas db_defs = CollectionExists_def CreateCollectionV2_def db_received_def Let_def

text \<open>
  C8, as stated, asks \<open>ensureCollection\<close> not to fail when the collection comes to exist
  between its check and its create. On the empty database the check answers "no"; another
  instance then creates "persons"; the create of this instance is answered with the
  duplicate-name error, and \<open>ensureCollection\<close> returns it.
\<close>

theorem ensureCollection_fails_in_race:
  "fst (CollectionExists empty_database ''persons'') = Inr False
   \<and> fst (ensureCollection another_instance empty_database ''persons'' False) =
       Some (Errorf ''failed to create collection'' (Some (ArangoError DuplicateName)))"
  by (simp add: ensureCollection_def db_defs empty_database_def another_instance_def alone_def)

text \<open>
  C8, amended: when the existence check reports that the collection exists,
  \<open>ensureCollection\<close> returns success and the existence check is the only request it has
  sent, so no create is issued. When the check reports that the collection does not exist
  and the collection has come to exist by the time the create request lands, the store
  answers the create with its duplicate-name error and \<open>ensureCollection\<close> returns that
  error, wrapped under "failed to create collection".
\<close>

theorem ensureCollection_existing_and_race:
  "(db_outage db = None \<and> name \<in> set (map fst (collections db)) \<longrightarrow>
      ensureCollection others db name isEdge =
        (None, db\<lparr>db_requests := db_requests db @ [CollectionExistsReq name]\<rparr>))
   \<and> (db_outage db = None \<and> name \<notin> set (map fst (collections db))
      \<and> db_outage (others (db_received (CollectionExistsReq name) db)) = None
      \<and> name \<in> set (map fst (collections (others (db_received (CollectionExistsReq name) db))))
      \<longrightarrow>
      fst (ensureCollection others db name isEdge) =
        Some (Errorf ''failed to create collection'' (Some (ArangoError DuplicateName))))"
  by (simp add: ensureCollection_def db_defs)

text \<open>
  The theorem on the database that holds "persons", with no other instance at work, and on
  the empty database, with another instance that creates "persons" after the check.
\<close>

theorem ensureCollection_existing_and_race_witness:
  "db_outage persons_database = None
   \<and> ''persons'' \<in> set (map fst (collections persons_database))
   \<and> ensureCollection alone persons_database ''persons'' False =
       (None, persons_database\<lparr>db_requests := [CollectionExistsReq ''persons'']\<rparr>)
   \<and> db_outage empty_database = None
   \<and> ''persons'' \<notin> set (map fst (collections empty_database))
   \<and> collections (another_instance (db_received (CollectionExistsReq ''persons'') empty_database))
       = [(''persons'', CollectionTypeDocument)]
   \<and> fst (ensureCollection another_instance empty_database ''persons'' False) =
       Some (Errorf ''failed to create collection'' (Some (ArangoError DuplicateName)))"
proof -
  have p: "db_outage persons_database = None"
    "''persons'' \<in> set (map fst (collections persons_database))"
    "db_requests persons_database = []"
    by (simp_all add: persons_database_def)
  have e: "db_outage empty_database = None"
    "''persons'' \<notin> set (map fst (collections empty_database))"
    by (simp_all add: empty_database_def)
  let ?db = "another_instance (db_received (CollectionExistsReq ''persons'') empty_database)"
  have o: "db_outage ?db = None" "collections ?db = [(''persons'', CollectionTypeDocument)]"
    by (simp_all add: another_instance_def alone_def ensureCollection_def db_defs
        empty_database_def)
  from ensureCollection_existing_and_race [of persons_database "''persons''" alone False] p
  have 1: "ensureCollection alone persons_database ''persons'' False =
       (None, persons_database\<lparr>db_requests := [CollectionExistsReq ''persons'']\<rparr>)"
    by simp
  from ensureCollection_existing_and_race [of empty_database "''persons''" another_instance False]
    e o
  have 2: "fst (ensureCollection another_instance empty_database ''persons'' False) =
       Some (Errorf ''failed to create collection'' (Some (ArangoError DuplicateName)))"
    by simp
  from p(1,2) 1 e o(2) 2 show ?thesis
    by (intro conjI)
qed

end
